theory Spec2Isabelle
  imports Complex_Main
begin

section \<open>Values, the Error struct and the error interface\<close>

text \<open>
  The repository holds the error type twice: package \<open>errors\<close>, with nine flags, the
  HTTP message and \<open>ToHTTPResponse\<close>, and package \<open>typederrs\<close>, an earlier copy with
  seven flags beside which the retry driver lives. What the driver uses of it (\<open>Newf\<close>,
  \<open>New\<close>, \<open>IsRetryableError\<close>) reads the same in both copies, so one model of the
  struct serves both.

  The payload \<open>Data interface{}\<close> of the struct holds any Go value. The values
  distinguished here are the ones \<open>fmt.Sprint\<close> renders differently: the nil interface,
  a string, an integer, a boolean, and a value whose dynamic type has an \<open>Error()\<close> or
  \<open>String()\<close> method (identified by what that method returns, which is all that
  \<open>fmt.Sprint\<close> reads of it).
\<close>

datatype go_value =
    VNil
  | VString string
  | VInt int
  | VBool bool
  | VStringer string

text \<open>The struct \<open>Error\<close>: nine flags, the payload and the HTTP message.\<close>

record Error =
  IsAuthErr :: bool
  IsUnauthorizedErr :: bool
  IsForbiddenErr :: bool
  IsClErr :: bool
  IsNotFoundErr :: bool
  IsNotImplementedErr :: bool
  IsRetryableErr :: bool
  IsConflictErr :: bool
  IsPreconditionFailedErr :: bool
  Data :: go_value
  HttpMsg :: string

text \<open>
  The zero value of the struct: a composite literal \<open>Error{Data: d, IsClErr: true}\<close> is
  the zero value with the named fields replaced.
\<close>

definition Error_zero :: Error where
  "Error_zero =
     \<lparr>IsAuthErr = False, IsUnauthorizedErr = False, IsForbiddenErr = False,
      IsClErr = False, IsNotFoundErr = False, IsNotImplementedErr = False,
      IsRetryableErr = False, IsConflictErr = False, IsPreconditionFailedErr = False,
      Data = VNil, HttpMsg = []\<rparr>"

text \<open>
  A value of the interface type \<open>error\<close>: nil, a value of dynamic type \<open>Error\<close>, or
  a value of any other dynamic type, identified by the result of its \<open>Error()\<close> method.
\<close>

datatype error_iface =
    nil_error
  | typed Error
  | foreign string

subsection \<open>The part of package fmt that the code calls\<close>

fun digit_char :: "nat \<Rightarrow> char" where
  "digit_char n = char_of (48 + n)"

fun nat_dec :: "nat \<Rightarrow> string" where
  "nat_dec n = (if n < 10 then [digit_char n] else nat_dec (n div 10) @ [digit_char (n mod 10)])"

declare nat_dec.simps [simp del]

definition int_dec :: "int \<Rightarrow> string" where
  "int_dec i = (if i < 0 then CHR ''-'' # nat_dec (nat (- i)) else nat_dec (nat i))"

text \<open>\<open>fmt.Sprint\<close> of one operand, in its default format.\<close>

fun Sprint :: "go_value \<Rightarrow> string" where
  "Sprint VNil = ''<nil>''"
| "Sprint (VString s) = s"
| "Sprint (VInt i) = int_dec i"
| "Sprint (VBool b) = (if b then ''true'' else ''false'')"
| "Sprint (VStringer s) = s"

text \<open>
  \<open>fmt.Sprintf\<close> is a parameter of every function that calls it: a function from the
  format and the operands to the expanded string.
\<close>

type_synonym sprintf_fn = "string \<Rightarrow> go_value list \<Rightarrow> string"

subsection \<open>Methods of Error\<close>

definition Error_str :: "Error \<Rightarrow> string" where
  "Error_str e = Sprint (Data e)"

definition Client :: "Error \<Rightarrow> bool" where
  "Client e = IsClErr e"

definition NotImplemented :: "Error \<Rightarrow> bool" where
  "NotImplemented e = IsNotImplementedErr e"

definition Auth :: "Error \<Rightarrow> bool" where
  "Auth e = (IsAuthErr e \<or> IsUnauthorizedErr e \<or> IsForbiddenErr e)"

definition Unauthorized :: "Error \<Rightarrow> bool" where
  "Unauthorized e = IsUnauthorizedErr e"

definition Forbidden :: "Error \<Rightarrow> bool" where
  "Forbidden e = IsForbiddenErr e"

definition NotFound :: "Error \<Rightarrow> bool" where
  "NotFound e = IsNotFoundErr e"

definition Retryable :: "Error \<Rightarrow> bool" where
  "Retryable e = IsRetryableErr e"

definition Conflict :: "Error \<Rightarrow> bool" where
  "Conflict e = IsConflictErr e"

definition PreconditionFailed :: "Error \<Rightarrow> bool" where
  "PreconditionFailed e = IsPreconditionFailedErr e"

text \<open>
  An \<open>error\<close> passed where an \<open>interface{}\<close> is expected (an operand of
  \<open>fmt.Sprintf\<close>): nil stays nil, any other value is one with an \<open>Error()\<close> method.
\<close>

fun as_value :: "error_iface \<Rightarrow> go_value" where
  "as_value nil_error = VNil"
| "as_value (typed e) = VStringer (Error_str e)"
| "as_value (foreign s) = VStringer s"

subsection \<open>ToHTTPResponse\<close>

text \<open>The status codes of package net/http that the code names.\<close>

definition StatusBadRequest :: int where "StatusBadRequest = 400"
definition StatusUnauthorized :: int where "StatusUnauthorized = 401"
definition StatusForbidden :: int where "StatusForbidden = 403"
definition StatusNotFound :: int where "StatusNotFound = 404"
definition StatusConflict :: int where "StatusConflict = 409"
definition StatusPreconditionFailed :: int where "StatusPreconditionFailed = 412"
definition StatusNotImplemented :: int where "StatusNotImplemented = 501"
definition StatusServiceUnavailable :: int where "StatusServiceUnavailable = 503"

text \<open>
  The \<open>http.ResponseWriter\<close> is the log of the \<open>http.Error\<close> calls made on it, each
  with the message and the status code it was given.
\<close>

record response =
  resp_msg :: string
  resp_code :: int

type_synonym ResponseWriter = "response list"

definition http_Error :: "ResponseWriter \<Rightarrow> string \<Rightarrow> int \<Rightarrow> ResponseWriter" where
  "http_Error w msg code = w @ [\<lparr>resp_msg = msg, resp_code = code\<rparr>]"

definition ToHTTPResponse :: "Error \<Rightarrow> ResponseWriter \<Rightarrow> (int \<times> bool) \<times> ResponseWriter" where
  "ToHTTPResponse e w =
     (let msg = HttpMsg e;
          msg = (if msg = [] then Error_str e else msg)
      in
        if IsAuthErr e \<or> IsForbiddenErr e \<or> IsUnauthorizedErr e then
          (if IsForbiddenErr e
           then ((StatusForbidden, True), http_Error w msg StatusForbidden)
           else ((StatusUnauthorized, True), http_Error w msg StatusUnauthorized))
        else if IsClErr e then
          ((StatusBadRequest, True), http_Error w msg StatusBadRequest)
        else if IsNotFoundErr e then
          ((StatusNotFound, True), http_Error w msg StatusNotFound)
        else if IsNotImplementedErr e then
          ((StatusNotImplemented, True), http_Error w msg StatusNotImplemented)
        else if IsRetryableErr e then
          ((StatusServiceUnavailable, True), http_Error w msg StatusServiceUnavailable)
        else if IsConflictErr e then
          ((StatusConflict, True), http_Error w msg StatusConflict)
        else if IsPreconditionFailedErr e then
          ((StatusPreconditionFailed, True), http_Error w msg StatusPreconditionFailed)
        else ((-1, False), w))"

text \<open>The type assertion \<open>err.(Error)\<close>: \<open>None\<close> when \<open>ok\<close> is false.\<close>

fun assert_Error :: "error_iface \<Rightarrow> Error option" where
  "assert_Error (typed e) = Some e"
| "assert_Error nil_error = None"
| "assert_Error (foreign s) = None"

definition ErrToHTTP_ToHTTPResponse ::
    "error_iface \<Rightarrow> ResponseWriter \<Rightarrow> (int \<times> bool) \<times> ResponseWriter" where
  "ErrToHTTP_ToHTTPResponse err w =
     (case assert_Error err of
        Some e \<Rightarrow> ToHTTPResponse e w
      | None \<Rightarrow> ((-1, False), w))"

subsection \<open>Constructors\<close>

definition New :: "go_value \<Rightarrow> Error" where
  "New data = Error_zero\<lparr>Data := data\<rparr>"

definition Newf :: "sprintf_fn \<Rightarrow> string \<Rightarrow> go_value list \<Rightarrow> Error" where
  "Newf sprintf format a = (let data = sprintf format a in New (VString data))"

definition NewWithHttp :: "string \<Rightarrow> go_value \<Rightarrow> Error" where
  "NewWithHttp httpMsg data = Error_zero\<lparr>Data := data, HttpMsg := httpMsg\<rparr>"

definition NewWithHttpf :: "sprintf_fn \<Rightarrow> string \<Rightarrow> string \<Rightarrow> go_value list \<Rightarrow> Error" where
  "NewWithHttpf sprintf httpMsg format a =
     (let data = sprintf format a in NewWithHttp httpMsg (VString data))"

definition NewClient :: "go_value \<Rightarrow> Error" where
  "NewClient data = Error_zero\<lparr>Data := data, IsClErr := True\<rparr>"

definition NewClientf :: "sprintf_fn \<Rightarrow> string \<Rightarrow> go_value list \<Rightarrow> Error" where
  "NewClientf sprintf format a = (let data = sprintf format a in NewClient (VString data))"

definition NewClientWithHttp :: "string \<Rightarrow> go_value \<Rightarrow> Error" where
  "NewClientWithHttp httpMsg data = Error_zero\<lparr>Data := data, HttpMsg := httpMsg, IsClErr := True\<rparr>"

definition NewClientWithHttpf :: "sprintf_fn \<Rightarrow> string \<Rightarrow> string \<Rightarrow> go_value list \<Rightarrow> Error" where
  "NewClientWithHttpf sprintf httpMsg format a =
     (let data = sprintf format a in NewClientWithHttp httpMsg (VString data))"

definition NewNotImplemented :: Error where
  "NewNotImplemented = Error_zero\<lparr>IsNotImplementedErr := True, Data := VString ''not implemented''\<rparr>"

definition NewNotImplementedf :: "sprintf_fn \<Rightarrow> string \<Rightarrow> go_value list \<Rightarrow> Error" where
  "NewNotImplementedf sprintf format a =
     (let data = sprintf format a in Error_zero\<lparr>Data := VString data, IsNotImplementedErr := True\<rparr>)"

definition NewNotImplementedWithHttp :: "string \<Rightarrow> go_value \<Rightarrow> Error" where
  "NewNotImplementedWithHttp httpMsg data = Error_zero\<lparr>Data := data, HttpMsg := httpMsg, IsNotImplementedErr := True\<rparr>"

definition NewNotImplementedWithHttpf :: "sprintf_fn \<Rightarrow> string \<Rightarrow> string \<Rightarrow> go_value list \<Rightarrow> Error" where
  "NewNotImplementedWithHttpf sprintf httpMsg format a =
     (let data = sprintf format a in NewNotImplementedWithHttp httpMsg (VString data))"

definition NewAuth :: "go_value \<Rightarrow> Error" where
  "NewAuth data = Error_zero\<lparr>Data := data, IsAuthErr := True\<rparr>"

definition NewAuthf :: "sprintf_fn \<Rightarrow> string \<Rightarrow> go_value list \<Rightarrow> Error" where
  "NewAuthf sprintf format a = (let data = sprintf format a in NewAuth (VString data))"

definition NewAuthWithHttp :: "string \<Rightarrow> go_value \<Rightarrow> Error" where
  "NewAuthWithHttp httpMsg data = Error_zero\<lparr>Data := data, HttpMsg := httpMsg, IsAuthErr := True\<rparr>"

definition NewAuthWithHttpf :: "sprintf_fn \<Rightarrow> string \<Rightarrow> string \<Rightarrow> go_value list \<Rightarrow> Error" where
  "NewAuthWithHttpf sprintf httpMsg format a =
     (let data = sprintf format a in NewAuthWithHttp httpMsg (VString data))"

definition NewForbidden :: "go_value \<Rightarrow> Error" where
  "NewForbidden data = Error_zero\<lparr>Data := data, IsAuthErr := True, IsForbiddenErr := True\<rparr>"

definition NewForbiddenf :: "sprintf_fn \<Rightarrow> string \<Rightarrow> go_value list \<Rightarrow> Error" where
  "NewForbiddenf sprintf format a = (let data = sprintf format a in NewForbidden (VString data))"

definition NewForbiddentWithHttp :: "string \<Rightarrow> go_value \<Rightarrow> Error" where
  "NewForbiddentWithHttp httpMsg data = Error_zero\<lparr>Data := data, HttpMsg := httpMsg, IsForbiddenErr := True\<rparr>"

definition NewForbiddentWithHttpf :: "sprintf_fn \<Rightarrow> string \<Rightarrow> string \<Rightarrow> go_value list \<Rightarrow> Error" where
  "NewForbiddentWithHttpf sprintf httpMsg format a =
     (let data = sprintf format a in NewForbiddentWithHttp httpMsg (VString data))"

definition NewUnauthorized :: "go_value \<Rightarrow> Error" where
  "NewUnauthorized data = Error_zero\<lparr>Data := data, IsAuthErr := True, IsUnauthorizedErr := True\<rparr>"

definition NewUnauthorizedf :: "sprintf_fn \<Rightarrow> string \<Rightarrow> go_value list \<Rightarrow> Error" where
  "NewUnauthorizedf sprintf format a = (let data = sprintf format a in NewUnauthorized (VString data))"

definition NewUnauthorizedWithHttp :: "string \<Rightarrow> go_value \<Rightarrow> Error" where
  "NewUnauthorizedWithHttp httpMsg data = Error_zero\<lparr>Data := data, HttpMsg := httpMsg, IsUnauthorizedErr := True\<rparr>"

definition NewUnauthorizedWithHttpf :: "sprintf_fn \<Rightarrow> string \<Rightarrow> string \<Rightarrow> go_value list \<Rightarrow> Error" where
  "NewUnauthorizedWithHttpf sprintf httpMsg format a =
     (let data = sprintf format a in NewUnauthorizedWithHttp httpMsg (VString data))"

definition NewNotFound :: "go_value \<Rightarrow> Error" where
  "NewNotFound data = Error_zero\<lparr>Data := data, IsNotFoundErr := True\<rparr>"

definition NewNotFoundf :: "sprintf_fn \<Rightarrow> string \<Rightarrow> go_value list \<Rightarrow> Error" where
  "NewNotFoundf sprintf format a = (let data = sprintf format a in NewNotFound (VString data))"

definition NewNotFoundWithHttp :: "string \<Rightarrow> go_value \<Rightarrow> Error" where
  "NewNotFoundWithHttp httpMsg data = Error_zero\<lparr>Data := data, HttpMsg := httpMsg, IsNotFoundErr := True\<rparr>"

definition NewNotFoundWithHttpf :: "sprintf_fn \<Rightarrow> string \<Rightarrow> string \<Rightarrow> go_value list \<Rightarrow> Error" where
  "NewNotFoundWithHttpf sprintf httpMsg format a =
     (let data = sprintf format a in NewNotFoundWithHttp httpMsg (VString data))"

definition NewRetryable :: "go_value \<Rightarrow> Error" where
  "NewRetryable data = Error_zero\<lparr>Data := data, IsRetryableErr := True\<rparr>"

definition NewRetryablef :: "sprintf_fn \<Rightarrow> string \<Rightarrow> go_value list \<Rightarrow> Error" where
  "NewRetryablef sprintf format a = (let data = sprintf format a in NewRetryable (VString data))"

definition NewRetryableWithHttp :: "string \<Rightarrow> go_value \<Rightarrow> Error" where
  "NewRetryableWithHttp httpMsg data = Error_zero\<lparr>Data := data, HttpMsg := httpMsg, IsRetryableErr := True\<rparr>"

definition NewRetryableWithHttpf :: "sprintf_fn \<Rightarrow> string \<Rightarrow> string \<Rightarrow> go_value list \<Rightarrow> Error" where
  "NewRetryableWithHttpf sprintf httpMsg format a =
     (let data = sprintf format a in NewRetryableWithHttp httpMsg (VString data))"

definition NewConflict :: "go_value \<Rightarrow> Error" where
  "NewConflict data = Error_zero\<lparr>Data := data, IsConflictErr := True\<rparr>"

definition NewConflictf :: "sprintf_fn \<Rightarrow> string \<Rightarrow> go_value list \<Rightarrow> Error" where
  "NewConflictf sprintf format a = (let data = sprintf format a in NewConflict (VString data))"

definition NewConflictWithHttp :: "string \<Rightarrow> go_value \<Rightarrow> Error" where
  "NewConflictWithHttp httpMsg data = Error_zero\<lparr>Data := data, HttpMsg := httpMsg, IsConflictErr := True\<rparr>"

definition NewConflictWithHttpf :: "sprintf_fn \<Rightarrow> string \<Rightarrow> string \<Rightarrow> go_value list \<Rightarrow> Error" where
  "NewConflictWithHttpf sprintf httpMsg format a =
     (let data = sprintf format a in NewConflictWithHttp httpMsg (VString data))"

definition NewPreconditionFailed :: "go_value \<Rightarrow> Error" where
  "NewPreconditionFailed data = Error_zero\<lparr>Data := data, IsPreconditionFailedErr := True\<rparr>"

definition NewPreconditionFailedf :: "sprintf_fn \<Rightarrow> string \<Rightarrow> go_value list \<Rightarrow> Error" where
  "NewPreconditionFailedf sprintf format a = (let data = sprintf format a in NewPreconditionFailed (VString data))"

definition NewPreconditionFailedWithHttp :: "string \<Rightarrow> go_value \<Rightarrow> Error" where
  "NewPreconditionFailedWithHttp httpMsg data = Error_zero\<lparr>Data := data, HttpMsg := httpMsg, IsPreconditionFailedErr := True\<rparr>"

definition NewPreconditionFailedWithHttpf :: "sprintf_fn \<Rightarrow> string \<Rightarrow> string \<Rightarrow> go_value list \<Rightarrow> Error" where
  "NewPreconditionFailedWithHttpf sprintf httpMsg format a =
     (let data = sprintf format a in NewPreconditionFailedWithHttp httpMsg (VString data))"

subsection \<open>The checkers\<close>

definition IsClientError :: "error_iface \<Rightarrow> bool" where
  "IsClientError err = (case assert_Error err of Some errC \<Rightarrow> Client errC | None \<Rightarrow> False)"

definition IsNotImplementedError :: "error_iface \<Rightarrow> bool" where
  "IsNotImplementedError err = (case assert_Error err of Some errC \<Rightarrow> NotImplemented errC | None \<Rightarrow> False)"

definition IsAuthError :: "error_iface \<Rightarrow> bool" where
  "IsAuthError err = (case assert_Error err of Some errC \<Rightarrow> Auth errC | None \<Rightarrow> False)"

definition IsForbiddenError :: "error_iface \<Rightarrow> bool" where
  "IsForbiddenError err = (case assert_Error err of Some errC \<Rightarrow> Forbidden errC | None \<Rightarrow> False)"

definition IsUnauthorizedError :: "error_iface \<Rightarrow> bool" where
  "IsUnauthorizedError err = (case assert_Error err of Some errC \<Rightarrow> Unauthorized errC | None \<Rightarrow> False)"

definition IsNotFoundError :: "error_iface \<Rightarrow> bool" where
  "IsNotFoundError err = (case assert_Error err of Some errC \<Rightarrow> NotFound errC | None \<Rightarrow> False)"

definition IsRetryableError :: "error_iface \<Rightarrow> bool" where
  "IsRetryableError err = (case assert_Error err of Some errC \<Rightarrow> Retryable errC | None \<Rightarrow> False)"

definition IsConflictError :: "error_iface \<Rightarrow> bool" where
  "IsConflictError err = (case assert_Error err of Some errC \<Rightarrow> Conflict errC | None \<Rightarrow> False)"

definition IsPreconditionFailedError :: "error_iface \<Rightarrow> bool" where
  "IsPreconditionFailedError err = (case assert_Error err of Some errC \<Rightarrow> PreconditionFailed errC | None \<Rightarrow> False)"

section \<open>The retry driver\<close>

text \<open>
  The struct \<open>backoff.Backoff\<close> of the imported backoff package: the four settings the
  options write, and the count of the \<open>Duration()\<close> calls made so far, which the package
  keeps in the struct. Durations are \<open>time.Duration\<close> values, in nanoseconds.
\<close>

record Backoff =
  bFactor :: real
  bJitter :: bool
  bMin :: int
  bMax :: int
  attempt :: nat

definition Second :: int where "Second = 1000000000"
definition Minute :: int where "Minute = 60 * Second"

record RetryConfig =
  backoff :: Backoff
  checker :: "error_iface \<Rightarrow> bool"

type_synonym RetryOption = "RetryConfig \<Rightarrow> RetryConfig"

definition RetryWithMinBackoff :: "int \<Rightarrow> RetryOption" where
  "RetryWithMinBackoff d = (\<lambda>b. b\<lparr>backoff := (backoff b)\<lparr>bMin := d\<rparr>\<rparr>)"

definition RetryWithMaxBackoff :: "int \<Rightarrow> RetryOption" where
  "RetryWithMaxBackoff d = (\<lambda>b. b\<lparr>backoff := (backoff b)\<lparr>bMax := d\<rparr>\<rparr>)"

definition RetryWithBackoffFactor :: "real \<Rightarrow> RetryOption" where
  "RetryWithBackoffFactor f = (\<lambda>b. b\<lparr>backoff := (backoff b)\<lparr>bFactor := f\<rparr>\<rparr>)"

definition RetryWithBackoffJitter :: "bool \<Rightarrow> RetryOption" where
  "RetryWithBackoffJitter t = (\<lambda>b. b\<lparr>backoff := (backoff b)\<lparr>bJitter := t\<rparr>\<rparr>)"

definition RetryWithRetryableErrChecker :: "(error_iface \<Rightarrow> bool) \<Rightarrow> RetryOption" where
  "RetryWithRetryableErrChecker ch = (\<lambda>b. b\<lparr>checker := ch\<rparr>)"

text \<open>
  What a run of the driver does to the world, in order: \<open>Invoked\<close> is one call of the
  operation, \<open>Slept k\<close> is one \<open>time.Sleep\<close>, of the duration that the call number
  \<open>k\<close> (from 0) of \<open>Duration()\<close> on the configured backoff returned.
\<close>

datatype event = Invoked | Slept nat

text \<open>
  The operation \<open>doer func() error\<close> is a closure: a function from the state it closes
  over to its result and the new state. The world of a run holds that state, the backoff
  struct the configuration points to, and the events so far.
\<close>

record 's world =
  dstate :: 's
  bo :: Backoff
  events :: "event list"

definition call_doer :: "('s \<Rightarrow> error_iface \<times> 's) \<Rightarrow> 's world \<Rightarrow> error_iface \<times> 's world" where
  "call_doer doer w =
     (let (err, s') = doer (dstate w)
      in (err, w\<lparr>dstate := s', events := events w @ [Invoked]\<rparr>))"

definition sleep_backoff :: "'s world \<Rightarrow> 's world" where
  "sleep_backoff w =
     w\<lparr>bo := (bo w)\<lparr>attempt := attempt (bo w) + 1\<rparr>,
       events := events w @ [Slept (attempt (bo w))]\<rparr>"

text \<open>The loop \<open>for numRetries := 0; numRetries < 5; numRetries++\<close> and the return after it.\<close>

function retry_loop ::
    "sprintf_fn \<Rightarrow> ('s \<Rightarrow> error_iface \<times> 's) \<Rightarrow> (error_iface \<Rightarrow> bool) \<Rightarrow>
     nat \<Rightarrow> error_iface \<Rightarrow> 's world \<Rightarrow> error_iface \<times> 's world" where
  "retry_loop sprintf doer chk numRetries err w =
     (if numRetries < 5 then
        (let (err', w1) = call_doer doer w
         in if err' = nil_error then (nil_error, w1)
            else if \<not> chk err' then (err', w1)
            else retry_loop sprintf doer chk (numRetries + 1) err' (sleep_backoff w1))
      else (typed (Newf sprintf ''too many retries: %v'' [as_value err]), w))"
  by pat_completeness auto
termination
  by (relation "measure (\<lambda>(sprintf, doer, chk, numRetries, err, w). 5 - numRetries)") auto

declare retry_loop.simps [simp del]

definition default_config :: RetryConfig where
  "default_config =
     \<lparr>backoff = \<lparr>bFactor = 0, bJitter = False, bMin = 2 * Second, bMax = 5 * Minute, attempt = 0\<rparr>,
      checker = IsRetryableError\<rparr>"

definition DoWithRetries ::
    "sprintf_fn \<Rightarrow> ('s \<Rightarrow> error_iface \<times> 's) \<Rightarrow> RetryOption list \<Rightarrow> 's \<Rightarrow> error_iface \<times> 's world" where
  "DoWithRetries sprintf doer opts s =
     (let conf = foldl (\<lambda>conf f. f conf) default_config opts
      in retry_loop sprintf doer (checker conf) 0 nil_error
           \<lparr>dstate = s, bo = backoff conf, events = []\<rparr>)"

text \<open>Reading a run: how often the operation was called and how often the driver slept.\<close>

definition invocations :: "'s world \<Rightarrow> nat" where
  "invocations w = length (filter (\<lambda>ev. ev = Invoked) (events w))"

definition sleeps :: "'s world \<Rightarrow> nat" where
  "sleeps w = length (filter (\<lambda>ev. ev \<noteq> Invoked) (events w))"



section \<open>Notions used to state the properties\<close>


text \<open>
  The transport mapping as a priority list: the first entry whose test holds of the error
  gives the status. \<open>first_match_status\<close> is the status and the flag that the mapping
  returns, \<open>-1\<close> and false when no entry matches.
\<close>

definition auth_family :: "Error \<Rightarrow> bool" where
  "auth_family e = (IsAuthErr e \<or> IsForbiddenErr e \<or> IsUnauthorizedErr e)"

definition priority_order :: "((Error \<Rightarrow> bool) \<times> (Error \<Rightarrow> int)) list" where
  "priority_order =
     [(auth_family, \<lambda>e. if IsForbiddenErr e then 403 else 401),
      (IsClErr, \<lambda>e. 400),
      (IsNotFoundErr, \<lambda>e. 404),
      (IsNotImplementedErr, \<lambda>e. 501),
      (IsRetryableErr, \<lambda>e. 503),
      (IsConflictErr, \<lambda>e. 409),
      (IsPreconditionFailedErr, \<lambda>e. 412)]"

definition first_match_status :: "Error \<Rightarrow> int \<times> bool" where
  "first_match_status e =
     (case find (\<lambda>(p, s). p e) priority_order of
        Some (p, s) \<Rightarrow> (s e, True)
      | None \<Rightarrow> (-1, False))"

text \<open>
  An error is classified when at least one of its nine flags is set. The body message is
  the HTTP message when it is not empty, the stringified payload otherwise.
\<close>

definition classified :: "Error \<Rightarrow> bool" where
  "classified e =
     (IsAuthErr e \<or> IsUnauthorizedErr e \<or> IsForbiddenErr e \<or> IsClErr e \<or> IsNotFoundErr e \<or>
      IsNotImplementedErr e \<or> IsRetryableErr e \<or> IsConflictErr e \<or> IsPreconditionFailedErr e)"

definition body_message :: "Error \<Rightarrow> string" where
  "body_message e = (if HttpMsg e \<noteq> [] then HttpMsg e else Error_str e)"

text \<open>
  The operation seen from outside: \<open>state_after doer s k\<close> is its state after \<open>k\<close>
  calls from \<open>s\<close>, \<open>result_at doer s k\<close> the error that call number \<open>k\<close> (from 0)
  returns. A retryable failure is a non-nil error that the checker accepts.
  \<open>rounds a k\<close> are the events of \<open>k\<close> failed attempts, each followed by its sleep,
  when the backoff has been asked for \<open>a\<close> durations before.
  \<open>configured opts\<close> is the configuration after the options are applied to the default.
\<close>

fun state_after :: "('s \<Rightarrow> error_iface \<times> 's) \<Rightarrow> 's \<Rightarrow> nat \<Rightarrow> 's" where
  "state_after doer s 0 = s"
| "state_after doer s (Suc k) = state_after doer (snd (doer s)) k"

definition result_at :: "('s \<Rightarrow> error_iface \<times> 's) \<Rightarrow> 's \<Rightarrow> nat \<Rightarrow> error_iface" where
  "result_at doer s k = fst (doer (state_after doer s k))"

definition retryable_failure :: "(error_iface \<Rightarrow> bool) \<Rightarrow> error_iface \<Rightarrow> bool" where
  "retryable_failure chk err = (err \<noteq> nil_error \<and> chk err)"

fun rounds :: "nat \<Rightarrow> nat \<Rightarrow> event list" where
  "rounds a 0 = []"
| "rounds a (Suc k) = Invoked # Slept a # rounds (Suc a) k"

definition configured :: "RetryOption list \<Rightarrow> RetryConfig" where
  "configured opts = foldl (\<lambda>conf f. f conf) default_config opts"

text \<open>
  Two concrete inputs for evaluating the driver. \<open>Sprintf_v\<close> expands a format in which
  \<open>%v\<close> and \<open>%%\<close> are the only verbs and no operand is left over, as
  \<open>fmt.Sprintf\<close> does: \<open>%v\<close> renders the next operand in its default format.
  \<open>scripted\<close> is an operation that returns the errors of a list one after the other,
  and nil when the list is used up.
\<close>

fun Sprintf_v :: sprintf_fn where
  "Sprintf_v [] a = []"
| "Sprintf_v (c # f) a =
     (if c = CHR ''%'' then
        (case f of
           [] \<Rightarrow> ''%!(NOVERB)''
         | d # g \<Rightarrow>
             (if d = CHR ''v'' then
                (case a of
                   [] \<Rightarrow> ''%!v(MISSING)'' @ Sprintf_v g []
                 | x # a' \<Rightarrow> Sprint x @ Sprintf_v g a')
              else if d = CHR ''%'' then CHR ''%'' # Sprintf_v g a
              else c # d # Sprintf_v g a))
      else c # Sprintf_v f a)"

fun scripted :: "error_iface list \<Rightarrow> error_iface \<times> error_iface list" where
  "scripted [] = (nil_error, [])"
| "scripted (e # es) = (e, es)"

section \<open>Transport rendering\<close>


lemmas Status_defs = StatusBadRequest_def StatusUnauthorized_def StatusForbidden_def
  StatusNotFound_def StatusConflict_def StatusPreconditionFailed_def
  StatusNotImplemented_def StatusServiceUnavailable_def

text \<open>
  Claim C1. For every error, \<open>ToHTTPResponse\<close> returns the status of the first entry of
  the priority order that matches: the Auth family first (403 when the Forbidden flag is
  set, 401 otherwise), then ClientError 400, NotFound 404, NotImplemented 501,
  Retryable 503, Conflict 409, PreconditionFailed 412. In particular an error with both
  the Forbidden and the NotFound flag maps to 403.
\<close>

theorem ToHTTPResponse_priority:
  "fst (ToHTTPResponse e w) = first_match_status e \<and>
   (IsForbiddenErr e \<and> IsNotFoundErr e \<longrightarrow> fst (ToHTTPResponse e w) = (403, True))"
  by (simp add: ToHTTPResponse_def first_match_status_def priority_order_def auth_family_def
      Status_defs Let_def)

theorem ToHTTPResponse_priority_witness:
  "IsForbiddenErr (Error_zero\<lparr>IsForbiddenErr := True, IsNotFoundErr := True\<rparr>) \<and>
   IsNotFoundErr (Error_zero\<lparr>IsForbiddenErr := True, IsNotFoundErr := True\<rparr>) \<and>
   fst (ToHTTPResponse (Error_zero\<lparr>IsForbiddenErr := True, IsNotFoundErr := True\<rparr>) []) = (403, True) \<and>
   first_match_status (Error_zero\<lparr>IsForbiddenErr := True, IsNotFoundErr := True\<rparr>) = (403, True)"
  using ToHTTPResponse_priority [of "Error_zero\<lparr>IsForbiddenErr := True, IsNotFoundErr := True\<rparr>" "[]"]
  by (simp add: Error_zero_def first_match_status_def priority_order_def auth_family_def)

text \<open>
  Claim C7. With no flag set, \<open>ToHTTPResponse\<close> leaves the sink as it was and returns
  \<open>-1\<close> and false. With some flag set, it adds exactly one response to the sink, whose
  code is the status it returns together with true.
\<close>

theorem ToHTTPResponse_sink:
  "(\<not> classified e \<longrightarrow> ToHTTPResponse e w = ((-1, False), w)) \<and>
   (classified e \<longrightarrow>
      (\<exists>code msg. ToHTTPResponse e w = ((code, True), w @ [\<lparr>resp_msg = msg, resp_code = code\<rparr>]) \<and>
         code \<noteq> -1))"
  by (simp add: ToHTTPResponse_def classified_def http_Error_def Let_def Status_defs)

theorem ToHTTPResponse_sink_witness:
  "\<not> classified (New (VString ''boom'')) \<and>
   ToHTTPResponse (New (VString ''boom'')) [] = ((-1, False), []) \<and>
   classified (NewConflict (VString ''taken'')) \<and>
   ToHTTPResponse (NewConflict (VString ''taken'')) [] =
     ((409, True), [\<lparr>resp_msg = ''taken'', resp_code = 409\<rparr>])"
  using ToHTTPResponse_sink [of "New (VString ''boom'')" "[]"]
    ToHTTPResponse_sink [of "NewConflict (VString ''taken'')" "[]"]
  by (simp add: New_def NewConflict_def Error_zero_def classified_def ToHTTPResponse_def
      Error_str_def http_Error_def Status_defs)

text \<open>
  Claim C8. The message written is the HTTP message when one is set and the stringified
  payload otherwise. It is the same for two classified errors with the same HTTP message
  and payload, whichever flags they carry.
\<close>

theorem ToHTTPResponse_body:
  "(classified e \<longrightarrow>
      snd (ToHTTPResponse e w) =
        w @ [\<lparr>resp_msg = body_message e, resp_code = fst (fst (ToHTTPResponse e w))\<rparr>]) \<and>
   (classified e \<and> classified e' \<and> HttpMsg e' = HttpMsg e \<and> Data e' = Data e \<longrightarrow>
      map resp_msg (snd (ToHTTPResponse e' w)) = map resp_msg (snd (ToHTTPResponse e w)))"
  by (simp add: ToHTTPResponse_def classified_def body_message_def http_Error_def Let_def
      Error_str_def)

theorem ToHTTPResponse_body_witness:
  "classified (NewNotFoundWithHttp ''no such page'' (VString ''row 7 missing'')) \<and>
   classified (NewClientWithHttp ''no such page'' (VString ''row 7 missing'')) \<and>
   snd (ToHTTPResponse (NewNotFoundWithHttp ''no such page'' (VString ''row 7 missing'')) []) =
     [\<lparr>resp_msg = ''no such page'', resp_code = 404\<rparr>] \<and>
   map resp_msg (snd (ToHTTPResponse (NewClientWithHttp ''no such page'' (VString ''row 7 missing'')) [])) =
     [''no such page'']"
  using ToHTTPResponse_body [of "NewNotFoundWithHttp ''no such page'' (VString ''row 7 missing'')"
      "[]" "NewClientWithHttp ''no such page'' (VString ''row 7 missing'')"]
  by (simp add: NewNotFoundWithHttp_def NewClientWithHttp_def Error_zero_def classified_def
      ToHTTPResponse_def body_message_def http_Error_def Status_defs)

section \<open>Constructors\<close>


lemmas plain_ctor_defs = New_def NewClient_def NewAuth_def NewForbidden_def NewUnauthorized_def
  NewNotFound_def NewRetryable_def NewConflict_def NewPreconditionFailed_def NewNotImplemented_def

lemmas fmt_ctor_defs = Newf_def NewClientf_def NewNotImplementedf_def NewAuthf_def
  NewForbiddenf_def NewUnauthorizedf_def NewNotFoundf_def NewRetryablef_def NewConflictf_def
  NewPreconditionFailedf_def

lemmas http_ctor_defs = NewWithHttp_def NewClientWithHttp_def NewNotImplementedWithHttp_def
  NewAuthWithHttp_def NewForbiddentWithHttp_def NewUnauthorizedWithHttp_def
  NewNotFoundWithHttp_def NewRetryableWithHttp_def NewConflictWithHttp_def
  NewPreconditionFailedWithHttp_def

lemmas http_fmt_ctor_defs = NewWithHttpf_def NewClientWithHttpf_def
  NewNotImplementedWithHttpf_def NewAuthWithHttpf_def NewForbiddentWithHttpf_def
  NewUnauthorizedWithHttpf_def NewNotFoundWithHttpf_def NewRetryableWithHttpf_def
  NewConflictWithHttpf_def NewPreconditionFailedWithHttpf_def

text \<open>
  Claim C9. An error built by a constructor from a string message stringifies to that
  message, and an error built by a formatted constructor stringifies to the expansion of
  the format with the operands.
\<close>

theorem constructors_keep_message:
  "Error_str (New (VString msg)) = msg \<and>
   Error_str (NewClient (VString msg)) = msg \<and>
   Error_str (NewAuth (VString msg)) = msg \<and>
   Error_str (NewForbidden (VString msg)) = msg \<and>
   Error_str (NewUnauthorized (VString msg)) = msg \<and>
   Error_str (NewNotFound (VString msg)) = msg \<and>
   Error_str (NewRetryable (VString msg)) = msg \<and>
   Error_str (NewConflict (VString msg)) = msg \<and>
   Error_str (NewPreconditionFailed (VString msg)) = msg \<and>
   Error_str (Newf sprintf format a) = sprintf format a \<and>
   Error_str (NewClientf sprintf format a) = sprintf format a \<and>
   Error_str (NewNotImplementedf sprintf format a) = sprintf format a \<and>
   Error_str (NewAuthf sprintf format a) = sprintf format a \<and>
   Error_str (NewForbiddenf sprintf format a) = sprintf format a \<and>
   Error_str (NewUnauthorizedf sprintf format a) = sprintf format a \<and>
   Error_str (NewNotFoundf sprintf format a) = sprintf format a \<and>
   Error_str (NewRetryablef sprintf format a) = sprintf format a \<and>
   Error_str (NewConflictf sprintf format a) = sprintf format a \<and>
   Error_str (NewPreconditionFailedf sprintf format a) = sprintf format a"
  by (simp add: Error_str_def plain_ctor_defs fmt_ctor_defs Error_zero_def)

text \<open>
  Not every error with an empty HTTP message has its stringified payload written: the
  generic error \<open>NewWithHttp("", "x")\<close> carries no flag, so \<open>ToHTTPResponse\<close> returns
  \<open>-1\<close> and false and writes nothing.
\<close>

theorem empty_HttpMsg_unclassified_counterexample:
  "HttpMsg (NewWithHttp [] (VString ''x'')) = [] \<and>
   Error_str (NewWithHttp [] (VString ''x'')) = ''x'' \<and>
   ToHTTPResponse (NewWithHttp [] (VString ''x'')) [] = ((-1, False), []) \<and>
   map resp_msg (snd (ToHTTPResponse (NewWithHttp [] (VString ''x'')) [])) \<noteq> [''x'']"
  by (simp add: NewWithHttp_def Error_zero_def Error_str_def ToHTTPResponse_def)

text \<open>
  Claim C10, amended. An empty HTTP message counts as none. An error with an empty HTTP
  message and at least one flag set has its stringified payload written; an error with
  no flag set has nothing written, whatever its HTTP message. For every kind, the
  constructor with an empty HTTP message gives the same response as the constructor
  without one (for the generic kind, no response from either).
\<close>

theorem empty_HttpMsg_is_absent:
  "(HttpMsg e = [] \<and> classified e \<longrightarrow>
      snd (ToHTTPResponse e w) =
        w @ [\<lparr>resp_msg = Error_str e, resp_code = fst (fst (ToHTTPResponse e w))\<rparr>]) \<and>
   (\<not> classified e \<longrightarrow> ToHTTPResponse e w = ((-1, False), w)) \<and>
   ToHTTPResponse (NewWithHttp [] d) w = ToHTTPResponse (New d) w \<and>
   ToHTTPResponse (NewClientWithHttp [] d) w = ToHTTPResponse (NewClient d) w \<and>
   ToHTTPResponse (NewNotImplementedWithHttp [] (VString ''not implemented'')) w =
     ToHTTPResponse NewNotImplemented w \<and>
   ToHTTPResponse (NewAuthWithHttp [] d) w = ToHTTPResponse (NewAuth d) w \<and>
   ToHTTPResponse (NewForbiddentWithHttp [] d) w = ToHTTPResponse (NewForbidden d) w \<and>
   ToHTTPResponse (NewUnauthorizedWithHttp [] d) w = ToHTTPResponse (NewUnauthorized d) w \<and>
   ToHTTPResponse (NewNotFoundWithHttp [] d) w = ToHTTPResponse (NewNotFound d) w \<and>
   ToHTTPResponse (NewRetryableWithHttp [] d) w = ToHTTPResponse (NewRetryable d) w \<and>
   ToHTTPResponse (NewConflictWithHttp [] d) w = ToHTTPResponse (NewConflict d) w \<and>
   ToHTTPResponse (NewPreconditionFailedWithHttp [] d) w =
     ToHTTPResponse (NewPreconditionFailed d) w \<and>
   ToHTTPResponse (NewWithHttpf sprintf [] format a) w = ToHTTPResponse (Newf sprintf format a) w \<and>
   ToHTTPResponse (NewClientWithHttpf sprintf [] format a) w =
     ToHTTPResponse (NewClientf sprintf format a) w \<and>
   ToHTTPResponse (NewNotImplementedWithHttpf sprintf [] format a) w =
     ToHTTPResponse (NewNotImplementedf sprintf format a) w \<and>
   ToHTTPResponse (NewAuthWithHttpf sprintf [] format a) w =
     ToHTTPResponse (NewAuthf sprintf format a) w \<and>
   ToHTTPResponse (NewForbiddentWithHttpf sprintf [] format a) w =
     ToHTTPResponse (NewForbiddenf sprintf format a) w \<and>
   ToHTTPResponse (NewUnauthorizedWithHttpf sprintf [] format a) w =
     ToHTTPResponse (NewUnauthorizedf sprintf format a) w \<and>
   ToHTTPResponse (NewNotFoundWithHttpf sprintf [] format a) w =
     ToHTTPResponse (NewNotFoundf sprintf format a) w \<and>
   ToHTTPResponse (NewRetryableWithHttpf sprintf [] format a) w =
     ToHTTPResponse (NewRetryablef sprintf format a) w \<and>
   ToHTTPResponse (NewConflictWithHttpf sprintf [] format a) w =
     ToHTTPResponse (NewConflictf sprintf format a) w \<and>
   ToHTTPResponse (NewPreconditionFailedWithHttpf sprintf [] format a) w =
     ToHTTPResponse (NewPreconditionFailedf sprintf format a) w"
  by (simp add: ToHTTPResponse_def classified_def http_Error_def Let_def Error_str_def
      plain_ctor_defs fmt_ctor_defs http_ctor_defs http_fmt_ctor_defs Error_zero_def)

theorem empty_HttpMsg_is_absent_witness:
  "HttpMsg (NewRetryableWithHttp [] (VString ''db down'')) = [] \<and>
   classified (NewRetryableWithHttp [] (VString ''db down'')) \<and>
   snd (ToHTTPResponse (NewRetryableWithHttp [] (VString ''db down'')) []) =
     [\<lparr>resp_msg = ''db down'', resp_code = 503\<rparr>] \<and>
   \<not> classified (NewWithHttp ''sorry'' (VString ''db down'')) \<and>
   ToHTTPResponse (NewWithHttp ''sorry'' (VString ''db down'')) [] = ((-1, False), [])"
  using empty_HttpMsg_is_absent [of "NewRetryableWithHttp [] (VString ''db down'')" "[]"]
    empty_HttpMsg_is_absent [of "NewWithHttp ''sorry'' (VString ''db down'')" "[]"]
  by (simp add: NewRetryableWithHttp_def NewWithHttp_def Error_zero_def classified_def
      ToHTTPResponse_def Error_str_def http_Error_def Status_defs)

text \<open>
  Claim C3. \<open>NewForbidden\<close> and \<open>NewUnauthorized\<close> set the Auth flag; the constructors
  with an HTTP message, \<open>NewForbiddentWithHttp\<close>, \<open>NewUnauthorizedWithHttp\<close> and their
  formatted variants, leave it unset.
\<close>

theorem WithHttp_auth_flag_missing:
  "IsAuthErr (NewForbidden (VString ''no entry'')) \<and>
   \<not> IsAuthErr (NewForbiddentWithHttp ''denied'' (VString ''no entry'')) \<and>
   \<not> IsAuthErr (NewForbiddentWithHttpf sprintf ''denied'' ''no entry'' []) \<and>
   IsAuthErr (NewUnauthorized (VString ''no token'')) \<and>
   \<not> IsAuthErr (NewUnauthorizedWithHttp ''log in'' (VString ''no token'')) \<and>
   \<not> IsAuthErr (NewUnauthorizedWithHttpf sprintf ''log in'' ''no token'' [])"
  by (simp add: NewForbidden_def NewForbiddentWithHttp_def NewForbiddentWithHttpf_def
      NewUnauthorized_def NewUnauthorizedWithHttp_def NewUnauthorizedWithHttpf_def Error_zero_def)

section \<open>The checkers\<close>


lemmas method_defs = Client_def NotImplemented_def Auth_def Unauthorized_def Forbidden_def
  NotFound_def Retryable_def Conflict_def PreconditionFailed_def

lemmas checker_defs = IsClientError_def IsNotImplementedError_def IsAuthError_def
  IsForbiddenError_def IsUnauthorizedError_def IsNotFoundError_def IsRetryableError_def
  IsConflictError_def IsPreconditionFailedError_def

text \<open>
  Claim C6. Each checker is false on nil and on an error of another type, and on an
  \<open>Error\<close> it is that error's flag, except \<open>IsAuthError\<close>, which holds when the Auth,
  the Unauthorized or the Forbidden flag is set.
\<close>

theorem checkers_read_flags:
  "IsClientError nil_error = False \<and> IsClientError (foreign s) = False \<and>
   IsClientError (typed e) = IsClErr e \<and>
   IsNotImplementedError nil_error = False \<and> IsNotImplementedError (foreign s) = False \<and>
   IsNotImplementedError (typed e) = IsNotImplementedErr e \<and>
   IsForbiddenError nil_error = False \<and> IsForbiddenError (foreign s) = False \<and>
   IsForbiddenError (typed e) = IsForbiddenErr e \<and>
   IsUnauthorizedError nil_error = False \<and> IsUnauthorizedError (foreign s) = False \<and>
   IsUnauthorizedError (typed e) = IsUnauthorizedErr e \<and>
   IsNotFoundError nil_error = False \<and> IsNotFoundError (foreign s) = False \<and>
   IsNotFoundError (typed e) = IsNotFoundErr e \<and>
   IsRetryableError nil_error = False \<and> IsRetryableError (foreign s) = False \<and>
   IsRetryableError (typed e) = IsRetryableErr e \<and>
   IsConflictError nil_error = False \<and> IsConflictError (foreign s) = False \<and>
   IsConflictError (typed e) = IsConflictErr e \<and>
   IsPreconditionFailedError nil_error = False \<and> IsPreconditionFailedError (foreign s) = False \<and>
   IsPreconditionFailedError (typed e) = IsPreconditionFailedErr e \<and>
   IsAuthError nil_error = False \<and> IsAuthError (foreign s) = False \<and>
   IsAuthError (typed e) = (IsAuthErr e \<or> IsUnauthorizedErr e \<or> IsForbiddenErr e)"
  by (simp add: checker_defs method_defs)

section \<open>The retry driver\<close>


lemma result_at_0: "result_at doer s 0 = fst (doer s)"
  by (simp add: result_at_def)

lemma result_at_Suc: "result_at doer s (Suc k) = result_at doer (snd (doer s)) k"
  by (simp add: result_at_def)

lemma state_after_Suc_right: "state_after doer s (Suc k) = snd (doer (state_after doer s k))"
  by (induction k arbitrary: s) simp_all

lemma invocations_rounds: "length (filter (\<lambda>ev. ev = Invoked) (rounds a k)) = k"
  by (induction k arbitrary: a) simp_all

lemma sleeps_rounds: "length (filter (\<lambda>ev. ev \<noteq> Invoked) (rounds a k)) = k"
  by (induction k arbitrary: a) simp_all

lemma call_doer_eq:
  "call_doer doer w =
     (fst (doer (dstate w)), w\<lparr>dstate := snd (doer (dstate w)), events := events w @ [Invoked]\<rparr>)"
  by (simp add: call_doer_def case_prod_beta)

lemma retry_loop_exhausted:
  "\<not> numRetries < 5 \<Longrightarrow>
   retry_loop sprintf doer chk numRetries err w =
     (typed (Newf sprintf ''too many retries: %v'' [as_value err]), w)"
  by (subst retry_loop.simps) simp

lemma retry_loop_success:
  "numRetries < 5 \<Longrightarrow> fst (doer (dstate w)) = nil_error \<Longrightarrow>
   retry_loop sprintf doer chk numRetries err w =
     (nil_error, w\<lparr>dstate := snd (doer (dstate w)), events := events w @ [Invoked]\<rparr>)"
  by (subst retry_loop.simps) (simp add: call_doer_eq)

lemma retry_loop_stop:
  "numRetries < 5 \<Longrightarrow> fst (doer (dstate w)) \<noteq> nil_error \<Longrightarrow> \<not> chk (fst (doer (dstate w))) \<Longrightarrow>
   retry_loop sprintf doer chk numRetries err w =
     (fst (doer (dstate w)), w\<lparr>dstate := snd (doer (dstate w)), events := events w @ [Invoked]\<rparr>)"
  by (subst retry_loop.simps) (simp add: call_doer_eq)

lemma retry_loop_again:
  "numRetries < 5 \<Longrightarrow> retryable_failure chk (fst (doer (dstate w))) \<Longrightarrow>
   retry_loop sprintf doer chk numRetries err w =
     retry_loop sprintf doer chk (Suc numRetries) (fst (doer (dstate w)))
       (w\<lparr>dstate := snd (doer (dstate w)),
          bo := (bo w)\<lparr>attempt := Suc (attempt (bo w))\<rparr>,
          events := events w @ [Invoked, Slept (attempt (bo w))]\<rparr>)"
  by (subst retry_loop.simps)
     (simp add: call_doer_eq sleep_backoff_def retryable_failure_def)

text \<open>
  As long as the operation fails retryably and attempts are left, the loop goes round:
  \<open>k\<close> rounds from \<open>n\<close> lead to the loop at \<open>n + k\<close>, with the last error kept.
\<close>

lemma retry_loop_rounds:
  "n + k \<le> 5 \<Longrightarrow>
   (\<And>i. i < k \<Longrightarrow> retryable_failure chk (result_at doer (dstate w) i)) \<Longrightarrow>
   retry_loop sprintf doer chk n err w =
     retry_loop sprintf doer chk (n + k)
       (if k = 0 then err else result_at doer (dstate w) (k - 1))
       (w\<lparr>dstate := state_after doer (dstate w) k,
          bo := (bo w)\<lparr>attempt := attempt (bo w) + k\<rparr>,
          events := events w @ rounds (attempt (bo w)) k\<rparr>)"
proof (induction k arbitrary: n err w)
  case 0
  then show ?case by simp
next
  case (Suc k)
  let ?e = "fst (doer (dstate w))"
  let ?w = "w\<lparr>dstate := snd (doer (dstate w)),
               bo := (bo w)\<lparr>attempt := Suc (attempt (bo w))\<rparr>,
               events := events w @ [Invoked, Slept (attempt (bo w))]\<rparr>"
  have n5: "n < 5" using Suc.prems(1) by simp
  have first: "retryable_failure chk ?e"
    using Suc.prems(2) [of 0] by (simp add: result_at_0)
  have rest: "retryable_failure chk (result_at doer (dstate ?w) i)" if "i < k" for i
    using Suc.prems(2) [of "Suc i"] that by (simp add: result_at_Suc)
  have step: "retry_loop sprintf doer chk n err w = retry_loop sprintf doer chk (Suc n) ?e ?w"
    using n5 first by (rule retry_loop_again)
  have "Suc n + k \<le> 5" using Suc.prems(1) by simp
  from Suc.IH [OF this rest, of ?e]
  have ih: "retry_loop sprintf doer chk (Suc n) ?e ?w =
     retry_loop sprintf doer chk (Suc n + k)
       (if k = 0 then ?e else result_at doer (dstate ?w) (k - 1))
       (?w\<lparr>dstate := state_after doer (dstate ?w) k,
          bo := (bo ?w)\<lparr>attempt := attempt (bo ?w) + k\<rparr>,
          events := events ?w @ rounds (attempt (bo ?w)) k\<rparr>)" .
  have err_eq: "(if k = 0 then ?e else result_at doer (dstate ?w) (k - 1)) =
      result_at doer (dstate w) (Suc k - 1)"
    by (cases k) (simp_all add: result_at_0 result_at_Suc)
  show ?case
    unfolding step ih err_eq by simp
qed

lemma DoWithRetries_rounds:
  assumes "k \<le> 5"
    and "\<And>i. i < k \<Longrightarrow> retryable_failure (checker (configured opts)) (result_at doer s i)"
  shows "DoWithRetries sprintf doer opts s =
     retry_loop sprintf doer (checker (configured opts)) k
       (if k = 0 then nil_error else result_at doer s (k - 1))
       \<lparr>dstate = state_after doer s k,
        bo = (backoff (configured opts))\<lparr>attempt := attempt (backoff (configured opts)) + k\<rparr>,
        events = rounds (attempt (backoff (configured opts))) k\<rparr>"
proof -
  define w :: "'a world" where "w = \<lparr>dstate = s, bo = backoff (configured opts), events = []\<rparr>"
  have w_simps: "dstate w = s" "bo w = backoff (configured opts)" "events w = []"
    by (simp_all add: w_def)
  have k5: "0 + k \<le> 5" using assms(1) by simp
  have fails: "retryable_failure (checker (configured opts)) (result_at doer (dstate w) i)"
    if "i < k" for i
    using assms(2) [OF that] by (simp add: w_simps)
  have run: "retry_loop sprintf doer (checker (configured opts)) 0 nil_error w =
     retry_loop sprintf doer (checker (configured opts)) (0 + k)
       (if k = 0 then nil_error else result_at doer (dstate w) (k - 1))
       (w\<lparr>dstate := state_after doer (dstate w) k,
          bo := (bo w)\<lparr>attempt := attempt (bo w) + k\<rparr>,
          events := events w @ rounds (attempt (bo w)) k\<rparr>)"
    using k5 fails by (rule retry_loop_rounds)
  have start: "DoWithRetries sprintf doer opts s =
      retry_loop sprintf doer (checker (configured opts)) 0 nil_error w"
    by (simp add: DoWithRetries_def configured_def Let_def w_def)
  have fin: "w\<lparr>dstate := state_after doer (dstate w) k,
          bo := (bo w)\<lparr>attempt := attempt (bo w) + k\<rparr>,
          events := events w @ rounds (attempt (bo w)) k\<rparr> =
       \<lparr>dstate = state_after doer s k,
        bo = (backoff (configured opts))\<lparr>attempt := attempt (backoff (configured opts)) + k\<rparr>,
        events = rounds (attempt (backoff (configured opts))) k\<rparr>"
    by (simp add: w_def)
  show ?thesis
    unfolding start run fin by (simp add: w_simps)
qed

lemma DoWithRetries_exhausted:
  assumes "\<forall>i<5. retryable_failure (checker (configured opts)) (result_at doer s i)"
  shows "DoWithRetries sprintf doer opts s =
     (typed (Newf sprintf ''too many retries: %v'' [as_value (result_at doer s 4)]),
      \<lparr>dstate = state_after doer s 5,
       bo = (backoff (configured opts))\<lparr>attempt := attempt (backoff (configured opts)) + 5\<rparr>,
       events = rounds (attempt (backoff (configured opts))) 5\<rparr>)"
proof -
  have "DoWithRetries sprintf doer opts s =
     retry_loop sprintf doer (checker (configured opts)) 5
       (if (5::nat) = 0 then nil_error else result_at doer s (5 - 1))
       \<lparr>dstate = state_after doer s 5,
        bo = (backoff (configured opts))\<lparr>attempt := attempt (backoff (configured opts)) + 5\<rparr>,
        events = rounds (attempt (backoff (configured opts))) 5\<rparr>"
    using assms by (intro DoWithRetries_rounds) simp_all
  then show ?thesis
    by (simp add: retry_loop_exhausted)
qed

lemma DoWithRetries_returns_at:
  assumes "k < 5"
    and "\<And>i. i < k \<Longrightarrow> retryable_failure (checker (configured opts)) (result_at doer s i)"
    and "\<not> retryable_failure (checker (configured opts)) (result_at doer s k)"
  shows "DoWithRetries sprintf doer opts s =
     (result_at doer s k,
      \<lparr>dstate = state_after doer s (Suc k),
       bo = (backoff (configured opts))\<lparr>attempt := attempt (backoff (configured opts)) + k\<rparr>,
       events = rounds (attempt (backoff (configured opts))) k @ [Invoked]\<rparr>)"
proof -
  let ?chk = "checker (configured opts)"
  define w :: "'a world" where
    "w = \<lparr>dstate = state_after doer s k,
          bo = (backoff (configured opts))\<lparr>attempt := attempt (backoff (configured opts)) + k\<rparr>,
          events = rounds (attempt (backoff (configured opts))) k\<rparr>"
  have w_simps: "dstate w = state_after doer s k"
    "events w = rounds (attempt (backoff (configured opts))) k"
    by (simp_all add: w_def)
  have "k \<le> 5" using assms(1) by simp
  then have run: "DoWithRetries sprintf doer opts s =
      retry_loop sprintf doer ?chk k (if k = 0 then nil_error else result_at doer s (k - 1)) w"
    unfolding w_def using assms(2) by (rule DoWithRetries_rounds)
  have res: "fst (doer (dstate w)) = result_at doer s k"
    by (simp add: w_simps result_at_def)
  have fin: "w\<lparr>dstate := snd (doer (dstate w)), events := events w @ [Invoked]\<rparr> =
      \<lparr>dstate = state_after doer s (Suc k),
       bo = (backoff (configured opts))\<lparr>attempt := attempt (backoff (configured opts)) + k\<rparr>,
       events = rounds (attempt (backoff (configured opts))) k @ [Invoked]\<rparr>"
    by (simp add: w_def state_after_Suc_right del: state_after.simps(2))
  show ?thesis
  proof (cases "result_at doer s k = nil_error")
    case True
    then have "fst (doer (dstate w)) = nil_error" using res by simp
    with assms(1) have "retry_loop sprintf doer ?chk k
        (if k = 0 then nil_error else result_at doer s (k - 1)) w =
        (nil_error, w\<lparr>dstate := snd (doer (dstate w)), events := events w @ [Invoked]\<rparr>)"
      by (rule retry_loop_success)
    then show ?thesis unfolding run fin using True by simp
  next
    case False
    then have nonnil: "fst (doer (dstate w)) \<noteq> nil_error" using res by simp
    have "\<not> ?chk (fst (doer (dstate w)))"
      using assms(3) False res by (simp add: retryable_failure_def)
    with assms(1) nonnil have "retry_loop sprintf doer ?chk k
        (if k = 0 then nil_error else result_at doer s (k - 1)) w =
        (fst (doer (dstate w)),
         w\<lparr>dstate := snd (doer (dstate w)), events := events w @ [Invoked]\<rparr>)"
      by (rule retry_loop_stop)
    then show ?thesis unfolding run fin res by simp
  qed
qed

lemma Newf_no_flags:
  "\<not> IsAuthErr (Newf sprintf format a) \<and> \<not> IsUnauthorizedErr (Newf sprintf format a) \<and>
   \<not> IsForbiddenErr (Newf sprintf format a) \<and> \<not> IsClErr (Newf sprintf format a) \<and>
   \<not> IsNotFoundErr (Newf sprintf format a) \<and> \<not> IsNotImplementedErr (Newf sprintf format a) \<and>
   \<not> IsRetryableErr (Newf sprintf format a) \<and> \<not> IsConflictErr (Newf sprintf format a) \<and>
   \<not> IsPreconditionFailedErr (Newf sprintf format a)"
  by (simp add: Newf_def New_def Error_zero_def)

lemma result_at_scripted_0: "result_at scripted (e # es) 0 = e"
  by (simp add: result_at_def)

lemma result_at_scripted_Suc: "result_at scripted (e # es) (Suc k) = result_at scripted es k"
  by (simp add: result_at_def)

lemma busy_results:
  "result_at scripted (replicate 5 x) 0 = x"
  "result_at scripted (replicate 5 x) 1 = x"
  "result_at scripted (replicate 5 x) 2 = x"
  "result_at scripted (replicate 5 x) 3 = x"
  "result_at scripted (replicate 5 x) 4 = x"
  by (simp_all add: eval_nat_numeral result_at_scripted_0 result_at_scripted_Suc)

text \<open>
  Claim C2. When all five attempts fail retryably, the driver returns a new error built
  by \<open>Newf\<close> from the format \<open>too many retries: %v\<close> and the last error. Its message
  is the expansion of that format, which is the text \<open>too many retries: \<close> followed by
  the last error's message when \<open>%v\<close> renders its operand in the default format. It
  has no flag set, and every checker is false on it.
\<close>

theorem too_many_retries_is_generic:
  assumes "\<forall>i<5. retryable_failure (checker (configured opts)) (result_at doer s i)"
  shows "\<exists>e. fst (DoWithRetries sprintf doer opts s) = typed e \<and>
     e = Newf sprintf ''too many retries: %v'' [as_value (result_at doer s 4)] \<and>
     Error_str e = sprintf ''too many retries: %v'' [as_value (result_at doer s 4)] \<and>
     (sprintf ''too many retries: %v'' [as_value (result_at doer s 4)] =
        ''too many retries: '' @ Sprint (as_value (result_at doer s 4)) \<longrightarrow>
      Error_str e = ''too many retries: '' @ Sprint (as_value (result_at doer s 4))) \<and>
     \<not> classified e \<and>
     \<not> IsAuthError (typed e) \<and> \<not> IsUnauthorizedError (typed e) \<and>
     \<not> IsForbiddenError (typed e) \<and> \<not> IsClientError (typed e) \<and>
     \<not> IsNotFoundError (typed e) \<and> \<not> IsNotImplementedError (typed e) \<and>
     \<not> IsRetryableError (typed e) \<and> \<not> IsConflictError (typed e) \<and>
     \<not> IsPreconditionFailedError (typed e)"
proof -
  let ?e = "Newf sprintf ''too many retries: %v'' [as_value (result_at doer s 4)]"
  have ret: "fst (DoWithRetries sprintf doer opts s) = typed ?e"
    using DoWithRetries_exhausted [OF assms] by simp
  have msg: "Error_str ?e = sprintf ''too many retries: %v'' [as_value (result_at doer s 4)]"
    by (simp add: Error_str_def Newf_def New_def Error_zero_def)
  have flags: "\<not> classified ?e"
    using Newf_no_flags [of sprintf] by (simp add: classified_def)
  have preds: "\<not> IsAuthError (typed ?e) \<and> \<not> IsUnauthorizedError (typed ?e) \<and>
     \<not> IsForbiddenError (typed ?e) \<and> \<not> IsClientError (typed ?e) \<and>
     \<not> IsNotFoundError (typed ?e) \<and> \<not> IsNotImplementedError (typed ?e) \<and>
     \<not> IsRetryableError (typed ?e) \<and> \<not> IsConflictError (typed ?e) \<and>
     \<not> IsPreconditionFailedError (typed ?e)"
    using Newf_no_flags [of sprintf] by (simp add: checker_defs method_defs)
  show ?thesis
    using ret msg flags preds by simp
qed

theorem too_many_retries_is_generic_witness:
  "retryable_failure (checker (configured []))
     (result_at scripted (replicate 5 (typed (NewRetryable (VString ''busy'')))) 0) \<and>
   retryable_failure (checker (configured []))
     (result_at scripted (replicate 5 (typed (NewRetryable (VString ''busy'')))) 1) \<and>
   retryable_failure (checker (configured []))
     (result_at scripted (replicate 5 (typed (NewRetryable (VString ''busy'')))) 2) \<and>
   retryable_failure (checker (configured []))
     (result_at scripted (replicate 5 (typed (NewRetryable (VString ''busy'')))) 3) \<and>
   retryable_failure (checker (configured []))
     (result_at scripted (replicate 5 (typed (NewRetryable (VString ''busy'')))) 4) \<and>
   Sprintf_v ''too many retries: %v''
       [as_value (result_at scripted (replicate 5 (typed (NewRetryable (VString ''busy'')))) 4)] =
     ''too many retries: '' @
       Sprint (as_value (result_at scripted (replicate 5 (typed (NewRetryable (VString ''busy'')))) 4)) \<and>
   fst (DoWithRetries Sprintf_v scripted [] (replicate 5 (typed (NewRetryable (VString ''busy''))))) =
     typed (New (VString ''too many retries: busy'')) \<and>
   Error_str (New (VString ''too many retries: busy'')) = ''too many retries: busy'' \<and>
   \<not> IsRetryableError
       (fst (DoWithRetries Sprintf_v scripted [] (replicate 5 (typed (NewRetryable (VString ''busy''))))))"
proof -
  let ?x = "typed (NewRetryable (VString ''busy''))"
  have res: "result_at scripted (replicate 5 ?x) i = ?x" if "i < 5" for i
  proof -
    have "i = 0 \<or> i = 1 \<or> i = 2 \<or> i = 3 \<or> i = 4" using that by arith
    then show ?thesis using busy_results [of ?x] by blast
  qed
  have chk: "checker (configured []) = IsRetryableError"
    by (simp add: configured_def default_config_def)
  have retr: "IsRetryableError ?x"
    by (simp add: IsRetryableError_def Retryable_def NewRetryable_def Error_zero_def)
  have fails: "\<forall>i<5. retryable_failure (checker (configured [])) (result_at scripted (replicate 5 ?x) i)"
    using res retr by (simp add: chk retryable_failure_def)
  have last: "as_value (result_at scripted (replicate 5 ?x) 4) = VStringer ''busy''"
    by (simp add: busy_results Error_str_def NewRetryable_def Error_zero_def)
  have newf: "Newf Sprintf_v ''too many retries: %v'' [VStringer ''busy''] =
      New (VString ''too many retries: busy'')"
    by (simp add: Newf_def)
  have fmt: "Sprintf_v ''too many retries: %v'' [VStringer ''busy''] =
      ''too many retries: '' @ Sprint (VStringer ''busy'')"
    by simp
  have got: "fst (DoWithRetries Sprintf_v scripted [] (replicate 5 ?x)) =
        typed (New (VString ''too many retries: busy'')) \<and>
      \<not> IsRetryableError (typed (New (VString ''too many retries: busy'')))"
    using too_many_retries_is_generic [OF fails, of Sprintf_v]
    unfolding last newf by blast
  have str: "Error_str (New (VString ''too many retries: busy'')) = ''too many retries: busy''"
    by (simp add: Error_str_def New_def)
  have each: "retryable_failure (checker (configured [])) (result_at scripted (replicate 5 ?x) i)"
    if "i < 5" for i
    using fails that by blast
  show ?thesis
    unfolding last using each [of 0] each [of 1] each [of 2] each [of 3] each [of 4] fmt got str
    by simp
qed

text \<open>
  Claim C5. When call number \<open>k\<close> of the operation is the first that does not fail
  retryably, and it returns an error the configured checker rejects, the driver returns
  that very error. The operation has then been called \<open>k + 1\<close> times, the driver has
  slept \<open>k\<close> times, and the last event is the call: no sleep and no attempt follows.
  For \<open>k = 0\<close> that is one call and no sleep.
\<close>

theorem non_retryable_error_returned_unchanged:
  assumes "k < 5"
    and "\<forall>i<k. retryable_failure (checker (configured opts)) (result_at doer s i)"
    and "result_at doer s k \<noteq> nil_error"
    and "\<not> checker (configured opts) (result_at doer s k)"
  shows "fst (DoWithRetries sprintf doer opts s) = result_at doer s k \<and>
     events (snd (DoWithRetries sprintf doer opts s)) =
       rounds (attempt (backoff (configured opts))) k @ [Invoked] \<and>
     dstate (snd (DoWithRetries sprintf doer opts s)) = state_after doer s (Suc k) \<and>
     invocations (snd (DoWithRetries sprintf doer opts s)) = Suc k \<and>
     sleeps (snd (DoWithRetries sprintf doer opts s)) = k"
proof -
  have "\<not> retryable_failure (checker (configured opts)) (result_at doer s k)"
    using assms(4) by (simp add: retryable_failure_def)
  with assms(1,2) have "DoWithRetries sprintf doer opts s =
     (result_at doer s k,
      \<lparr>dstate = state_after doer s (Suc k),
       bo = (backoff (configured opts))\<lparr>attempt := attempt (backoff (configured opts)) + k\<rparr>,
       events = rounds (attempt (backoff (configured opts))) k @ [Invoked]\<rparr>)"
    by (intro DoWithRetries_returns_at) simp_all
  then show ?thesis
    by (simp add: invocations_def sleeps_def invocations_rounds sleeps_rounds)
qed

theorem non_retryable_error_returned_unchanged_witness:
  "(0::nat) < 5 \<and>
   result_at scripted [typed (NewClient (VString ''bad input''))] 0 \<noteq> nil_error \<and>
   \<not> checker (configured []) (result_at scripted [typed (NewClient (VString ''bad input''))] 0) \<and>
   fst (DoWithRetries Sprintf_v scripted [] [typed (NewClient (VString ''bad input''))]) =
     typed (NewClient (VString ''bad input'')) \<and>
   events (snd (DoWithRetries Sprintf_v scripted [] [typed (NewClient (VString ''bad input''))])) =
     [Invoked] \<and>
   invocations (snd (DoWithRetries Sprintf_v scripted [] [typed (NewClient (VString ''bad input''))])) = 1 \<and>
   sleeps (snd (DoWithRetries Sprintf_v scripted [] [typed (NewClient (VString ''bad input''))])) = 0"
proof -
  let ?s = "[typed (NewClient (VString ''bad input''))]"
  have chk: "checker (configured []) = IsRetryableError"
    by (simp add: configured_def default_config_def)
  have res: "result_at scripted ?s 0 = typed (NewClient (VString ''bad input''))"
    by (simp add: result_at_def)
  have h1: "(0::nat) < 5" by simp
  have h2: "\<forall>i<0. retryable_failure (checker (configured [])) (result_at scripted ?s i)"
    by simp
  have h3: "result_at scripted ?s 0 \<noteq> nil_error"
    by (simp add: res)
  have h4: "\<not> checker (configured []) (result_at scripted ?s 0)"
    unfolding res chk
    by (simp add: IsRetryableError_def Retryable_def NewClient_def Error_zero_def)
  show ?thesis
    using h1 h2 h3 h4 non_retryable_error_returned_unchanged [OF h1 h2 h3 h4, of Sprintf_v]
    by (simp add: res)
qed

text \<open>
  A success ends the run in the same way: after four retryable failures and a success the
  operation has been called five times and the driver has slept four times.
\<close>

lemma success_ends_run:
  assumes "k < 5"
    and "\<forall>i<k. retryable_failure (checker (configured opts)) (result_at doer s i)"
    and "result_at doer s k = nil_error"
  shows "fst (DoWithRetries sprintf doer opts s) = nil_error \<and>
     events (snd (DoWithRetries sprintf doer opts s)) =
       rounds (attempt (backoff (configured opts))) k @ [Invoked] \<and>
     invocations (snd (DoWithRetries sprintf doer opts s)) = Suc k \<and>
     sleeps (snd (DoWithRetries sprintf doer opts s)) = k"
proof -
  have "\<not> retryable_failure (checker (configured opts)) (result_at doer s k)"
    using assms(3) by (simp add: retryable_failure_def)
  with assms(1,2) have "DoWithRetries sprintf doer opts s =
     (result_at doer s k,
      \<lparr>dstate = state_after doer s (Suc k),
       bo = (backoff (configured opts))\<lparr>attempt := attempt (backoff (configured opts)) + k\<rparr>,
       events = rounds (attempt (backoff (configured opts))) k @ [Invoked]\<rparr>)"
    by (intro DoWithRetries_returns_at) simp_all
  then show ?thesis
    using assms(3) by (simp add: invocations_def sleeps_def invocations_rounds sleeps_rounds)
qed

text \<open>
  When all five attempts fail retryably, the driver sleeps after each of them, the fifth
  included.
\<close>

lemma exhaustion_sleeps_five_times:
  assumes "\<forall>i<5. retryable_failure (checker (configured opts)) (result_at doer s i)"
  shows "events (snd (DoWithRetries sprintf doer opts s)) =
       rounds (attempt (backoff (configured opts))) 5 \<and>
     invocations (snd (DoWithRetries sprintf doer opts s)) = 5 \<and>
     sleeps (snd (DoWithRetries sprintf doer opts s)) = 5"
  using DoWithRetries_exhausted [OF assms, of sprintf]
  by (simp add: invocations_def sleeps_def invocations_rounds sleeps_rounds)

text \<open>
  Claim C4. On an operation that fails retryably five times, the run ends with a sleep
  after the fifth call: five calls and five sleeps, not four.
\<close>

theorem exhausted_run_sleeps_after_last_attempt:
  "events (snd (DoWithRetries Sprintf_v scripted []
      (replicate 5 (typed (NewRetryable (VString ''busy'')))))) =
     [Invoked, Slept 0, Invoked, Slept 1, Invoked, Slept 2, Invoked, Slept 3, Invoked, Slept 4] \<and>
   invocations (snd (DoWithRetries Sprintf_v scripted []
      (replicate 5 (typed (NewRetryable (VString ''busy'')))))) = 5 \<and>
   sleeps (snd (DoWithRetries Sprintf_v scripted []
      (replicate 5 (typed (NewRetryable (VString ''busy'')))))) = 5"
proof -
  let ?x = "typed (NewRetryable (VString ''busy''))"
  have res: "result_at scripted (replicate 5 ?x) i = ?x" if "i < 5" for i
  proof -
    have "i = 0 \<or> i = 1 \<or> i = 2 \<or> i = 3 \<or> i = 4" using that by arith
    then show ?thesis using busy_results [of ?x] by blast
  qed
  have chk: "checker (configured []) = IsRetryableError"
    by (simp add: configured_def default_config_def)
  have retr: "IsRetryableError ?x"
    by (simp add: IsRetryableError_def Retryable_def NewRetryable_def Error_zero_def)
  have fails: "\<forall>i<5. retryable_failure (checker (configured [])) (result_at scripted (replicate 5 ?x) i)"
    using res retr by (simp add: chk retryable_failure_def)
  have a0: "attempt (backoff (configured [])) = 0"
    by (simp add: configured_def default_config_def)
  have r5: "rounds 0 5 =
      [Invoked, Slept 0, Invoked, Slept 1, Invoked, Slept 2, Invoked, Slept 3, Invoked, Slept 4]"
    by (simp add: eval_nat_numeral)
  show ?thesis
    using exhaustion_sleeps_five_times [OF fails, of Sprintf_v] by (simp add: a0 r5)
qed

end
